theory Spec2Isabelle
  imports Complex_Main "HOL-Library.Word"
begin

section \<open>Option model (types.ts, plugin.ts: DEFAULT_OPTIONS, \_mergeOptions)\<close>

text \<open>
  Every property of \<open>ImageConversionOptions\<close> is optional. A property of an object
  literal is in one of three states: the key is absent, the key is present and holds
  \<open>undefined\<close>, or the key holds a value. Reading the property gives \<open>undefined\<close> in
  the first two states, but the object spread of \<open>_mergeOptions\<close> tells them apart: a
  key that is present overrides the default even when it holds \<open>undefined\<close>.

  An option of type \<open>number\<close> is modelled as an exact rational (every finite double is
  one), and comparisons of doubles are exact; NaN and the infinities as option values are
  outside the model. The one product the plugin computes is rounded to a double as IEEE
  754 does it (section Numbers). Strings are lists
  of code units below 256. The observer \<open>onProgress\<close> is a function: only whether the
  options hold one is modelled, and what it is handed is recorded where it is called.
  The two appearance fields of \<open>ImageConversionOptions\<close> are left out: the plugin never
  reads them.
\<close>

datatype 'a field = Absent | Undef | Val 'a

fun rd :: "'a field \<Rightarrow> 'a option" where
  "rd Absent = None"
| "rd Undef = None"
| "rd (Val v) = Some v"

record options =
  format :: "string field"
  quality :: "rat field"
  scale :: "rat field"
  width :: "rat field"
  height :: "rat field"
  backgroundColor :: "string field"
  transparent :: "bool field"
  waitTime :: "rat field"
  outputPath :: "string field"
  themeId :: "string field"
  onProgress :: "unit field"

text \<open>The empty object literal \<open>{}\<close>.\<close>

definition no_options :: options where
  "no_options = \<lparr> format = Absent, quality = Absent, scale = Absent, width = Absent,
     height = Absent, backgroundColor = Absent, transparent = Absent, waitTime = Absent,
     outputPath = Absent, themeId = Absent, onProgress = Absent \<rparr>"

definition DEFAULT_OPTIONS :: options where
  "DEFAULT_OPTIONS = no_options \<lparr> format := Val ''png'', quality := Val 90, scale := Val 1,
     backgroundColor := Val ''#ffffff'', transparent := Val False, waitTime := Val 1000 \<rparr>"

text \<open>One key of \<open>{...DEFAULT_OPTIONS, ...options}\<close>.\<close>

fun spread :: "'a field \<Rightarrow> 'a field \<Rightarrow> 'a field" where
  "spread d Absent = d"
| "spread d Undef = Undef"
| "spread d (Val v) = Val v"

definition mergeOptions :: "options option \<Rightarrow> options" where
  "mergeOptions options =
     (case options of
        None \<Rightarrow> DEFAULT_OPTIONS
      | Some opts \<Rightarrow>
          \<lparr> format = spread (format DEFAULT_OPTIONS) (format opts),
            quality = spread (quality DEFAULT_OPTIONS) (quality opts),
            scale = spread (scale DEFAULT_OPTIONS) (scale opts),
            width = spread (width DEFAULT_OPTIONS) (width opts),
            height = spread (height DEFAULT_OPTIONS) (height opts),
            backgroundColor = spread (backgroundColor DEFAULT_OPTIONS) (backgroundColor opts),
            transparent = spread (transparent DEFAULT_OPTIONS) (transparent opts),
            waitTime = spread (waitTime DEFAULT_OPTIONS) (waitTime opts),
            outputPath = spread (outputPath DEFAULT_OPTIONS) (outputPath opts),
            themeId = spread (themeId DEFAULT_OPTIONS) (themeId opts),
            onProgress = spread (onProgress DEFAULT_OPTIONS) (onProgress opts) \<rparr>)"

section \<open>Option validation (plugin.ts: validateOptions)\<close>

text \<open>
  The messages of the source are template literals in Chinese. Each is one constructor
  here, carrying the value the template interpolates:
  \<^item> \<open>UnsupportedFormat f\<close>: unsupported image format \<open>f\<close>, supported: png, jpg, jpeg;
  \<^item> \<open>QualityOutOfRange q\<close>: quality must be within 1-100, current value \<open>q\<close>;
  \<^item> \<open>ScaleOutOfRange s\<close>: scale must be within 0-4, current value \<open>s\<close>;
  \<^item> \<open>WidthNotPositive w\<close>, \<open>HeightNotPositive h\<close>: must be positive, current value;
  \<^item> \<open>WaitTimeNegative t\<close>: wait time cannot be negative, current value \<open>t\<close>;
  \<^item> \<open>PngIgnoresQuality\<close>: the PNG format ignores the quality parameter;
  \<^item> \<open>TransparentOnlyPng\<close>: a transparent background only works with PNG.
\<close>

datatype vmsg =
    UnsupportedFormat string
  | QualityOutOfRange rat
  | ScaleOutOfRange rat
  | WidthNotPositive rat
  | HeightNotPositive rat
  | WaitTimeNegative rat
  | PngIgnoresQuality
  | TransparentOnlyPng

record validation_result =
  valid :: bool
  errors :: "vmsg list option"
  warnings :: "vmsg list option"

text \<open>
  The source pushes onto two arrays, check after check. Each check is written here as
  the list of messages it pushes (none or one); the arrays are their concatenation in
  the order of the source.
\<close>

definition format_errors :: "options \<Rightarrow> vmsg list" where
  "format_errors opts =
     (case rd (format opts) of
        None \<Rightarrow> []
      | Some f \<Rightarrow> if f \<noteq> [] \<and> f \<notin> set [''png'', ''jpg'', ''jpeg'']
                  then [UnsupportedFormat f] else [])"

definition quality_errors :: "options \<Rightarrow> vmsg list" where
  "quality_errors opts =
     (case rd (quality opts) of
        None \<Rightarrow> []
      | Some q \<Rightarrow> if q < 1 \<or> q > 100 then [QualityOutOfRange q] else [])"

definition quality_warnings :: "options \<Rightarrow> vmsg list" where
  "quality_warnings opts =
     (case rd (quality opts) of
        None \<Rightarrow> []
      | Some q \<Rightarrow> if rd (format opts) = Some ''png'' then [PngIgnoresQuality] else [])"

definition scale_errors :: "options \<Rightarrow> vmsg list" where
  "scale_errors opts =
     (case rd (scale opts) of
        None \<Rightarrow> []
      | Some s \<Rightarrow> if s \<le> 0 \<or> s > 4 then [ScaleOutOfRange s] else [])"

definition width_errors :: "options \<Rightarrow> vmsg list" where
  "width_errors opts =
     (case rd (width opts) of
        None \<Rightarrow> []
      | Some w \<Rightarrow> if w \<le> 0 then [WidthNotPositive w] else [])"

definition height_errors :: "options \<Rightarrow> vmsg list" where
  "height_errors opts =
     (case rd (height opts) of
        None \<Rightarrow> []
      | Some h \<Rightarrow> if h \<le> 0 then [HeightNotPositive h] else [])"

definition waitTime_errors :: "options \<Rightarrow> vmsg list" where
  "waitTime_errors opts =
     (case rd (waitTime opts) of
        None \<Rightarrow> []
      | Some t \<Rightarrow> if t < 0 then [WaitTimeNegative t] else [])"

definition transparent_warnings :: "options \<Rightarrow> vmsg list" where
  "transparent_warnings opts =
     (if rd (transparent opts) = Some True \<and> rd (format opts) \<noteq> Some ''png''
      then [TransparentOnlyPng] else [])"

definition collected_errors :: "options \<Rightarrow> vmsg list" where
  "collected_errors opts =
     format_errors opts @ quality_errors opts @ scale_errors opts @ width_errors opts
       @ height_errors opts @ waitTime_errors opts"

definition collected_warnings :: "options \<Rightarrow> vmsg list" where
  "collected_warnings opts = quality_warnings opts @ transparent_warnings opts"

definition validateOptions :: "options \<Rightarrow> validation_result" where
  "validateOptions opts =
     \<lparr> valid = (length (collected_errors opts) = 0),
       errors = (if length (collected_errors opts) > 0 then Some (collected_errors opts) else None),
       warnings = (if length (collected_warnings opts) > 0
                   then Some (collected_warnings opts) else None) \<rparr>"

section \<open>Strings and regular expressions (the part of the JavaScript library the inliner uses)\<close>

text \<open>
  The inliner works with \<open>String.prototype.replace\<close> on regular expressions with the
  flags \<open>g\<close> and \<open>i\<close>. This section models that part of the language: matching by
  backtracking as ECMAScript defines it, the search for the leftmost match, the
  expansion of the replacement text (GetSubstitution) and the replacement of all matches.
\<close>

definition dquote :: char where "dquote = CHR 0x22"
definition squote :: char where "squote = CHR 0x27"
definition newline :: char where "newline = CHR 0x0A"
definition backslash :: char where "backslash = CHR 0x5C"
definition dollar :: char where "dollar = CHR 0x24"

text \<open>
  Canonicalize of the RegExp semantics without the \<open>u\<close> flag: the code unit's upper
  case, on code units below 256. The small letters a-z and the small Latin-1 letters
  (0xE0-0xFE without the division sign 0xF7) map to their capitals, 32 below.
\<close>

definition canonicalize :: "char \<Rightarrow> char" where
  "canonicalize c =
     (let n = (of_char c :: int)
      in if (97 \<le> n \<and> n \<le> 122) \<or> (224 \<le> n \<and> n \<le> 254 \<and> n \<noteq> 247)
         then char_of (n - 32) else c)"

text \<open>\<open>String.prototype.toLowerCase\<close> on code units below 256.\<close>

definition toLowerCase_char :: "char \<Rightarrow> char" where
  "toLowerCase_char c =
     (let n = (of_char c :: int)
      in if (65 \<le> n \<and> n \<le> 90) \<or> (192 \<le> n \<and> n \<le> 222 \<and> n \<noteq> 215)
         then char_of (n + 32) else c)"

definition toLowerCase :: "string \<Rightarrow> string" where
  "toLowerCase s = map toLowerCase_char s"

text \<open>
  The patterns of the plugin are built from: a character, a class \<open>[...]\<close>, a negated
  class \<open>[^...]\<close>, the greedy \<open>*\<close> on one of these, sequence, alternative \<open>|\<close>, a capturing
  group with its number, and the end of input \<open>$\<close>. \<open>amatch ic a c\<close>: the atom \<open>a\<close>
  matches the character \<open>c\<close>; with the flag \<open>i\<close> (\<open>ic\<close>) both sides are canonicalized.
\<close>

datatype atom = Chr char | OneOf "char list" | NoneOf "char list"

datatype rx = Atom atom | Star atom | Seq rx rx | Alt rx rx | Grp nat rx | Eos | Eps

fun amatch :: "bool \<Rightarrow> atom \<Rightarrow> char \<Rightarrow> bool" where
  "amatch ic (Chr a) c = (if ic then canonicalize a = canonicalize c else a = c)"
| "amatch ic (OneOf as) c =
     (if ic then canonicalize c \<in> set (map canonicalize as) else c \<in> set as)"
| "amatch ic (NoneOf as) c =
     (if ic then canonicalize c \<notin> set (map canonicalize as) else c \<notin> set as)"

text \<open>
  The matcher follows the continuation style of the ECMAScript semantics: \<open>rmatch ic r s
  cp k\<close> matches \<open>r\<close> at the start of \<open>s\<close> and hands the rest of the input and the
  captures to the continuation \<open>k\<close>; when \<open>k\<close> fails, the next choice is tried. The greedy
  star takes as many characters as it can and gives them back one by one; of two
  alternatives the left one is tried first. \<open>exec\<close> is one match attempt at the start of
  its input: the rest of the input after the match and the captures, newest first.
\<close>

fun star :: "bool \<Rightarrow> atom \<Rightarrow> string \<Rightarrow> (string \<Rightarrow> 'a option) \<Rightarrow> 'a option" where
  "star ic a [] k = k []"
| "star ic a (c # cs) k =
     (if amatch ic a c
      then (case star ic a cs k of Some x \<Rightarrow> Some x | None \<Rightarrow> k (c # cs))
      else k (c # cs))"

type_synonym caps = "(nat \<times> string) list"

fun rmatch :: "bool \<Rightarrow> rx \<Rightarrow> string \<Rightarrow> caps \<Rightarrow> (string \<Rightarrow> caps \<Rightarrow> 'a option) \<Rightarrow> 'a option" where
  "rmatch ic (Atom a) s cp k =
     (case s of [] \<Rightarrow> None | c # cs \<Rightarrow> if amatch ic a c then k cs cp else None)"
| "rmatch ic (Star a) s cp k = star ic a s (\<lambda>s'. k s' cp)"
| "rmatch ic (Seq r1 r2) s cp k = rmatch ic r1 s cp (\<lambda>s' cp'. rmatch ic r2 s' cp' k)"
| "rmatch ic (Alt r1 r2) s cp k =
     (case rmatch ic r1 s cp k of Some x \<Rightarrow> Some x | None \<Rightarrow> rmatch ic r2 s cp k)"
| "rmatch ic (Grp n r) s cp k =
     rmatch ic r s cp (\<lambda>s' cp'. k s' ((n, take (length s - length s') s) # cp'))"
| "rmatch ic Eos s cp k = (if s = [] then k s cp else None)"
| "rmatch ic Eps s cp k = k s cp"

definition exec :: "bool \<Rightarrow> rx \<Rightarrow> string \<Rightarrow> (string \<times> caps) option" where
  "exec ic r s = rmatch ic r s [] (\<lambda>s' cp. Some (s', cp))"

fun ngroups :: "rx \<Rightarrow> nat" where
  "ngroups (Seq r1 r2) = ngroups r1 + ngroups r2"
| "ngroups (Alt r1 r2) = ngroups r1 + ngroups r2"
| "ngroups (Grp n r) = Suc (ngroups r)"
| "ngroups r = 0"

fun lit :: "string \<Rightarrow> rx" where
  "lit [] = Eps"
| "lit (c # cs) = Seq (Atom (Chr c)) (lit cs)"

fun seqs :: "rx list \<Rightarrow> rx" where
  "seqs [] = Eps"
| "seqs (r # rs) = Seq r (seqs rs)"

fun alts :: "rx \<Rightarrow> rx list \<Rightarrow> rx" where
  "alts r [] = r"
| "alts r (r' # rs) = Alt r (alts r' rs)"

text \<open>\<open>RegExp.prototype.test\<close>: is there a match at some position.\<close>

fun tails :: "string \<Rightarrow> string list" where
  "tails [] = [[]]"
| "tails (c # cs) = (c # cs) # tails cs"

definition test :: "bool \<Rightarrow> rx \<Rightarrow> string \<Rightarrow> bool" where
  "test ic r s = list_ex (\<lambda>t. exec ic r t \<noteq> None) (tails s)"

text \<open>
  GetSubstitution: the expansion of a replacement text for one match, with the text
  before and after the match, the captures and the number \<open>m\<close> of groups of the pattern.
  \<open>$$\<close> is a dollar sign, \<open>$&\<close> the match, \<open>$`\<close> the text before it, \<open>$'\<close> the text after
  it; \<open>$n\<close> and \<open>$nn\<close> are a capture when the pattern has a group of that number (two
  digits are read as one digit and a character when only that names a group), and stay
  as they are otherwise; any other character stands for itself. None of the patterns
  has a named group, so \<open>$<\<close> stands for itself.
\<close>

definition is_digit :: "char \<Rightarrow> bool" where
  "is_digit c = (c \<in> set ''0123456789'')"

definition digit_val :: "char \<Rightarrow> nat" where
  "digit_val c = nat ((of_char c :: int) - 48)"

definition capture :: "caps \<Rightarrow> nat \<Rightarrow> string" where
  "capture cp n = (case map_of cp n of Some s \<Rightarrow> s | None \<Rightarrow> [])"

fun get_substitution ::
  "string \<Rightarrow> string \<Rightarrow> string \<Rightarrow> caps \<Rightarrow> nat \<Rightarrow> string \<Rightarrow> string" where
  "get_substitution matched pre post cp m [] = []"
| "get_substitution matched pre post cp m [c] = [c]"
| "get_substitution matched pre post cp m (c # d # t) =
     (if c \<noteq> dollar then c # get_substitution matched pre post cp m (d # t)
      else if d = dollar then dollar # get_substitution matched pre post cp m t
      else if d = CHR ''&'' then matched @ get_substitution matched pre post cp m t
      else if d = CHR 0x60 then pre @ get_substitution matched pre post cp m t
      else if d = squote then post @ get_substitution matched pre post cp m t
      else if is_digit d then
        (case t of
           e # t' \<Rightarrow>
             if is_digit e \<and> 10 * digit_val d + digit_val e \<le> m
             then (if 1 \<le> 10 * digit_val d + digit_val e
                   then capture cp (10 * digit_val d + digit_val e)
                          @ get_substitution matched pre post cp m t'
                   else c # d # e # get_substitution matched pre post cp m t')
             else (if 1 \<le> digit_val d \<and> digit_val d \<le> m
                   then capture cp (digit_val d) @ get_substitution matched pre post cp m t
                   else c # d # get_substitution matched pre post cp m t)
         | [] \<Rightarrow>
             if 1 \<le> digit_val d \<and> digit_val d \<le> m
             then capture cp (digit_val d) else [c, d])
      else c # get_substitution matched pre post cp m (d # t))"

text \<open>
  \<open>replace\<close> with the flag \<open>g\<close>: starting at the left, the first position with a match
  is found, the match is replaced by the expansion of the replacement text, and the
  search goes on behind the match (one character further on after an empty match).
  \<open>pre\<close> is the part of the subject already passed.
\<close>

fun replace_from :: "bool \<Rightarrow> rx \<Rightarrow> string \<Rightarrow> string \<Rightarrow> string \<Rightarrow> string" where
  "replace_from ic r tmpl pre rest =
     (case exec ic r rest of
        None \<Rightarrow>
          (case rest of [] \<Rightarrow> [] | c # cs \<Rightarrow> c # replace_from ic r tmpl (pre @ [c]) cs)
      | Some (rest', cp) \<Rightarrow>
          (let len = length rest - length rest'
           in get_substitution (take len rest) pre (drop len rest) cp (ngroups r) tmpl @
              (if len = 0
               then (case rest of [] \<Rightarrow> []
                     | c # cs \<Rightarrow> c # replace_from ic r tmpl (pre @ [c]) cs)
               else replace_from ic r tmpl (pre @ take len rest) (drop len rest))))"

definition replace_g :: "bool \<Rightarrow> rx \<Rightarrow> string \<Rightarrow> string \<Rightarrow> string" where
  "replace_g ic r tmpl s = replace_from ic r tmpl [] s"


section \<open>File sets\<close>

text \<open>
  \<open>Map<string, string | Uint8Array>\<close>: an association list in the order of insertion,
  which is the order the loops of the inliner follow; \<open>files.get\<close> is \<open>map_of\<close>.
\<close>

datatype content = Text string | Bytes "8 word list"

type_synonym fileset = "(string \<times> content) list"

section \<open>Resource inliner\<close>

definition endsWith :: "string \<Rightarrow> string \<Rightarrow> bool" where
  "endsWith s suffix =
     (length suffix \<le> length s \<and> drop (length s - length suffix) s = suffix)"

text \<open>\<open>s.split(sep).pop()\<close>: the part of \<open>s\<close> after its last separator, all of \<open>s\<close> if it has none.\<close>

definition split_pop :: "char \<Rightarrow> string \<Rightarrow> string" where
  "split_pop sep s = rev (takeWhile (\<lambda>c. c \<noteq> sep) (rev s))"

text \<open>
  \<open>_escapeRegex\<close> replaces every character of the class \<open>[.*+?^${}()|[\]\\]\<close> by a
  backslash and itself (\<open>'\\$&'\<close>). \<open>pattern_text\<close> is how \<open>new RegExp\<close> reads a run of
  plain and escaped characters: an escaped syntax character is that character, a bare
  one is not plain text.
\<close>

definition regex_syntax_chars :: "char list" where
  "regex_syntax_chars = ''.*+?^${}()|[]'' @ [backslash]"

definition escapeRegex :: "string \<Rightarrow> string" where
  "escapeRegex str =
     replace_g False (Atom (OneOf regex_syntax_chars)) [backslash, dollar, CHR ''&''] str"

fun pattern_text :: "string \<Rightarrow> rx option" where
  "pattern_text [] = Some Eps"
| "pattern_text [c] = (if c \<in> set regex_syntax_chars then None else Some (Seq (Atom (Chr c)) Eps))"
| "pattern_text (c # d # t) =
     (if c = backslash
      then (if d \<in> set regex_syntax_chars
            then map_option (Seq (Atom (Chr d))) (pattern_text t) else None)
      else if c \<in> set regex_syntax_chars then None
      else map_option (Seq (Atom (Chr c))) (pattern_text (d # t)))"

text \<open>
  The three patterns, for a file name \<open>f\<close> that \<open>_escapeRegex\<close> has made literal:
  \<^verbatim>\<open><link[^>]*href=["'][^"']*f["'][^>]*>\<close>,
  \<^verbatim>\<open>(src|href)=["']([^"']*f)["']\<close> and, for image paths,
  \<^verbatim>\<open>\.(png|jpg|jpeg|gif|webp|svg|ico|bmp)$\<close>.
\<close>

definition quote_class :: atom where
  "quote_class = OneOf [dquote, squote]"

definition no_quote_class :: atom where
  "no_quote_class = NoneOf [dquote, squote]"

definition link_rx :: "string \<Rightarrow> rx" where
  "link_rx filename =
     seqs [lit ''<link'', Star (NoneOf ''>''), lit ''href='', Atom quote_class,
           Star no_quote_class, lit filename, Atom quote_class, Star (NoneOf ''>''), lit ''>'']"

definition src_href_rx :: "string \<Rightarrow> rx" where
  "src_href_rx filename =
     seqs [Grp 1 (Alt (lit ''src'') (lit ''href'')), lit ''='', Atom quote_class,
           Grp 2 (Seq (Star no_quote_class) (lit filename)), Atom quote_class]"

definition image_path_rx :: rx where
  "image_path_rx =
     seqs [lit ''.'',
           Grp 1 (alts (lit ''png'') [lit ''jpg'', lit ''jpeg'', lit ''gif'', lit ''webp'',
                                      lit ''svg'', lit ''ico'', lit ''bmp'']),
           Eos]"

definition isImagePath :: "string \<Rightarrow> bool" where
  "isImagePath path = test True image_path_rx path"

definition mimeTypes :: "(string \<times> string) list" where
  "mimeTypes =
     [(''png'', ''image/png''), (''jpg'', ''image/jpeg''), (''jpeg'', ''image/jpeg''),
      (''gif'', ''image/gif''), (''webp'', ''image/webp''), (''svg'', ''image/svg+xml''),
      (''ico'', ''image/x-icon''), (''bmp'', ''image/bmp'')]"

definition getMimeType :: "string \<Rightarrow> string" where
  "getMimeType path =
     (let ext = toLowerCase (split_pop (CHR ''.'') path)
      in case map_of mimeTypes ext of Some t \<Rightarrow> t | None \<Rightarrow> ''application/octet-stream'')"

text \<open>
  Base64 with padding, which is what both branches of \<open>_uint8ArrayToBase64\<close> compute
  (\<open>Buffer.toString('base64')\<close> under Node.js, \<open>btoa\<close> of the byte string elsewhere).
\<close>

definition base64_alphabet :: string where
  "base64_alphabet =
     ''ABCDEFGHIJKLMNOPQRSTUVWXYZabcdefghijklmnopqrstuvwxyz0123456789+/''"

definition b64 :: "nat \<Rightarrow> char" where
  "b64 n = base64_alphabet ! (n mod 64)"

fun uint8ArrayToBase64 :: "8 word list \<Rightarrow> string" where
  "uint8ArrayToBase64 [] = []"
| "uint8ArrayToBase64 [a] =
     [b64 (unat a div 4), b64 (unat a mod 4 * 16), CHR ''='', CHR ''='']"
| "uint8ArrayToBase64 [a, b] =
     [b64 (unat a div 4), b64 (unat a mod 4 * 16 + unat b div 16),
      b64 (unat b mod 16 * 4), CHR ''='']"
| "uint8ArrayToBase64 (a # b # c # bs) =
     [b64 (unat a div 4), b64 (unat a mod 4 * 16 + unat b div 16),
      b64 (unat b mod 16 * 4 + unat c div 64), b64 (unat c mod 64)]
     @ uint8ArrayToBase64 bs"

text \<open>
  The three steps of \<open>_inlineResources\<close>: the theme style sheet (skipped when the entry is
  missing, is not text or is the empty text, which is falsy), the other style sheets, the
  images. Each step is a \<open>replace\<close> with the flags \<open>g\<close> and \<open>i\<close>, and the style block or
  the attribute with the data URL is its replacement text.
\<close>

definition styleTag :: "string \<Rightarrow> string" where
  "styleTag css =
     ''<style type='' @ [dquote] @ ''text/css'' @ [dquote] @ ''>'' @ [newline] @ css
       @ [newline] @ ''</style>''"

definition THEME_LINK :: rx where
  "THEME_LINK = link_rx ''theme.css''"

definition inline_theme :: "fileset \<Rightarrow> string \<Rightarrow> string" where
  "inline_theme files result =
     (case map_of files ''theme.css'' of
        Some (Text themeCss) \<Rightarrow>
          if themeCss \<noteq> [] then replace_g True THEME_LINK (styleTag themeCss) result
          else result
      | _ \<Rightarrow> result)"

definition inline_css_entry :: "string \<times> content \<Rightarrow> string \<Rightarrow> string" where
  "inline_css_entry entry result =
     (case entry of
        (filePath, Text content) \<Rightarrow>
          if endsWith filePath ''.css'' \<and> filePath \<noteq> ''theme.css''
          then replace_g True (link_rx (split_pop (CHR ''/'') filePath)) (styleTag content) result
          else result
      | (filePath, Bytes content) \<Rightarrow> result)"

definition dataUrl :: "string \<Rightarrow> 8 word list \<Rightarrow> string" where
  "dataUrl filePath content =
     ''data:'' @ getMimeType filePath @ '';base64,'' @ uint8ArrayToBase64 content"

definition inline_image_entry :: "string \<times> content \<Rightarrow> string \<Rightarrow> string" where
  "inline_image_entry entry result =
     (case entry of
        (filePath, Bytes content) \<Rightarrow>
          if isImagePath filePath
          then replace_g True (src_href_rx (split_pop (CHR ''/'') filePath))
                 (''$1='' @ [dquote] @ dataUrl filePath content @ [dquote]) result
          else result
      | (filePath, Text content) \<Rightarrow> result)"

definition inlineResources :: "string \<Rightarrow> fileset \<Rightarrow> string" where
  "inlineResources html files =
     fold inline_image_entry files (fold inline_css_entry files (inline_theme files html))"


section \<open>External references and literal replacement\<close>

text \<open>
  \<open>no_match ic r s\<close>: the pattern \<open>r\<close> matches at no position of \<open>s\<close>. The patterns of
  a file set are those the inliner searches for: the theme link pattern if \<open>theme.css\<close>
  holds text that is not empty, the link pattern of every other text entry ending in
  \<open>.css\<close>, and the \<open>src\<close>/\<open>href\<close> pattern of every byte entry with an image extension.
  A text has no external references left when none of them matches in it.
\<close>

definition no_match :: "bool \<Rightarrow> rx \<Rightarrow> string \<Rightarrow> bool" where
  "no_match ic r s = list_all (\<lambda>t. exec ic r t = None) (tails s)"

definition theme_patterns :: "fileset \<Rightarrow> rx list" where
  "theme_patterns files =
     (case map_of files ''theme.css'' of
        Some (Text themeCss) \<Rightarrow> if themeCss \<noteq> [] then [THEME_LINK] else []
      | _ \<Rightarrow> [])"

definition css_pattern :: "string \<times> content \<Rightarrow> rx list" where
  "css_pattern entry =
     (case entry of
        (filePath, Text content) \<Rightarrow>
          if endsWith filePath ''.css'' \<and> filePath \<noteq> ''theme.css''
          then [link_rx (split_pop (CHR ''/'') filePath)] else []
      | (filePath, Bytes content) \<Rightarrow> [])"

definition image_pattern :: "string \<times> content \<Rightarrow> rx list" where
  "image_pattern entry =
     (case entry of
        (filePath, Bytes content) \<Rightarrow>
          if isImagePath filePath then [src_href_rx (split_pop (CHR ''/'') filePath)] else []
      | (filePath, Text content) \<Rightarrow> [])"

definition external_patterns :: "fileset \<Rightarrow> rx list" where
  "external_patterns files =
     theme_patterns files @ concat (map css_pattern files) @ concat (map image_pattern files)"

definition no_external_refs :: "fileset \<Rightarrow> string \<Rightarrow> bool" where
  "no_external_refs files s = list_all (\<lambda>r. no_match True r s) (external_patterns files)"

text \<open>
  The replacement as the specification words it, to compare with \<open>replace_g\<close>: every
  match of the pattern, found from left to right, is replaced by the given text as it
  is, with no reading of \<open>$\<close> in it.
\<close>

fun replace_every :: "bool \<Rightarrow> rx \<Rightarrow> string \<Rightarrow> string \<Rightarrow> string" where
  "replace_every ic r text s =
     (case exec ic r s of
        None \<Rightarrow> (case s of [] \<Rightarrow> [] | c # cs \<Rightarrow> c # replace_every ic r text cs)
      | Some (rest, cp) \<Rightarrow>
          (let len = length s - length rest
           in text @ (if len = 0
                      then (case s of [] \<Rightarrow> [] | c # cs \<Rightarrow> c # replace_every ic r text cs)
                      else replace_every ic r text (drop len s))))"

declare replace_from.simps [simp del]
declare replace_every.simps [simp del]

section \<open>Numbers (the double arithmetic of the render step)\<close>

text \<open>
  The render step multiplies two numbers and rounds the product with \<open>Math.round\<close>. A
  product of doubles is the exact product rounded to the nearest double, a tie going to
  the even significand (IEEE 754 binary64, round to nearest even): 53 significant bits
  for exponents from -1022 up, multiples of \<open>2^-1074\<close> below that, and an infinity once
  the rounded magnitude reaches \<open>2^1024\<close>. So a result is a finite number or an infinity.
  \<open>exponent x\<close> is the integer \<open>e\<close> with \<open>2^e \<le> |x| < 2^(e+1)\<close>.
\<close>

datatype number = Num rat | Infinity | NegInfinity

fun bit_length :: "int \<Rightarrow> int" where
  "bit_length n = (if n \<le> 0 then 0 else 1 + bit_length (n div 2))"

definition pow2 :: "int \<Rightarrow> rat" where
  "pow2 k = (if 0 \<le> k then 2 ^ nat k else 1 / 2 ^ nat (- k))"

definition exponent :: "rat \<Rightarrow> int" where
  "exponent x =
     (case quotient_of x of (p, q) \<Rightarrow>
        (let d = bit_length \<bar>p\<bar> - bit_length q
         in if pow2 d \<le> \<bar>x\<bar> then d else d - 1))"

definition round_half_even :: "rat \<Rightarrow> int" where
  "round_half_even y =
     (let f = \<lfloor>y\<rfloor>; r = y - of_int f
      in if r < 1 / 2 then f else if 1 / 2 < r then f + 1 else if even f then f else f + 1)"

definition to_double :: "rat \<Rightarrow> number" where
  "to_double x =
     (if x = 0 then Num 0
      else (let u = pow2 (max (exponent x) (- 1022) - 52);
                r = of_int (round_half_even (x / u)) * u
            in if 1024 \<le> exponent r then (if 0 < r then Infinity else NegInfinity)
               else Num r))"

text \<open>The operator \<open>*\<close> on two finite doubles.\<close>

definition double_mul :: "rat \<Rightarrow> rat \<Rightarrow> number" where
  "double_mul a b = to_double (a * b)"

text \<open>\<open>Math.round\<close>: the nearest integer, a tie going up; an infinity stays.\<close>

fun Math_round :: "number \<Rightarrow> number" where
  "Math_round (Num x) = Num (of_int \<lfloor>x + 1 / 2\<rfloor>)"
| "Math_round Infinity = Infinity"
| "Math_round NegInfinity = NegInfinity"

declare bit_length.simps [simp del]

section \<open>Collaborators, effects and results\<close>

text \<open>
  Messages of errors and results. Those of this plugin are string literals in Chinese, one
  constructor each:
  \<^item> \<open>ValidationErrors es\<close>: the validation errors \<open>es\<close> joined with \<open>'; '\<close>;
  \<^item> \<open>OptionValidationFailed\<close>: the fallback "option validation failed";
  \<^item> \<open>HtmlConversionNoData\<close>: "HTML conversion failed, no valid data obtained";
  \<^item> \<open>PuppeteerRequired\<close>: "puppeteer must be installed to render images. Run: npm
    install puppeteer";
  \<^item> \<open>IndexHtmlNotFound\<close>: "index.html not found, the HTML conversion may have failed";
  \<^item> \<open>UnknownRenderError\<close>: "unknown error while rendering the image";
  \<^item> \<open>NodeRequired\<close>: "writing files needs Node.js; in a browser use the data field".
  \<open>External s\<close> is the message \<open>s\<close> of an error that a collaborator produced.
\<close>

datatype emsg =
    ValidationErrors "vmsg list"
  | OptionValidationFailed
  | HtmlConversionNoData
  | PuppeteerRequired
  | IndexHtmlNotFound
  | UnknownRenderError
  | NodeRequired
  | External string

text \<open>A thrown value: an \<open>Error\<close> object with its message, or any other value.\<close>

datatype thrown = ErrorObj emsg | NonError

record conversion_error =
  code :: string
  message :: emsg
  cause :: "thrown option"

definition PUPPETEER_NOT_INSTALLED :: string where "PUPPETEER_NOT_INSTALLED = ''CONV-IMG-001''"
definition BROWSER_LAUNCH_FAILED :: string where "BROWSER_LAUNCH_FAILED = ''CONV-IMG-002''"
definition PAGE_LOAD_TIMEOUT :: string where "PAGE_LOAD_TIMEOUT = ''CONV-IMG-003''"
definition SCREENSHOT_FAILED :: string where "SCREENSHOT_FAILED = ''CONV-IMG-004''"
definition FILE_WRITE_FAILED :: string where "FILE_WRITE_FAILED = ''CONV-IMG-005''"
definition INVALID_FORMAT :: string where "INVALID_FORMAT = ''CONV-IMG-006''"
definition INVALID_QUALITY :: string where "INVALID_QUALITY = ''CONV-IMG-007''"
definition INVALID_DIMENSIONS :: string where "INVALID_DIMENSIONS = ''CONV-IMG-008''"

text \<open>What \<open>CardtoHTMLPlugin.convert\<close> resolves to.\<close>

record html_result =
  h_success :: bool
  h_data :: "fileset option"
  h_error :: "conversion_error option"

text \<open>
  The extents that \<open>page.evaluate\<close> reads from \<open>document.body\<close> and the root element.
  Each is an attribute of type \<open>long\<close> of the DOM: a signed integer of 32 bits, read
  with \<open>sint\<close>.
\<close>

record extents =
  body_scrollWidth :: "32 word"
  body_offsetWidth :: "32 word"
  html_clientWidth :: "32 word"
  html_scrollWidth :: "32 word"
  html_offsetWidth :: "32 word"
  body_scrollHeight :: "32 word"
  body_offsetHeight :: "32 word"
  html_clientHeight :: "32 word"
  html_scrollHeight :: "32 word"
  html_offsetHeight :: "32 word"

record screenshot_options =
  shot_type :: string
  fullPage :: bool
  shot_quality :: "rat option"
  omitBackground :: "bool option"

datatype status = ConvertingHtml | Rendering | Capturing | Completed | Failed

text \<open>
  The step texts of the progress events, in the order of the source: parsing the card
  and generating HTML; HTML conversion failed; HTML done, starting the browser;
  rendering the page; generating the image; image saved to file; conversion done; an
  error occurred during conversion.
\<close>

datatype step =
    StepGeneratingHtml
  | StepHtmlFailed
  | StepStartingBrowser
  | StepRenderingPage
  | StepGeneratingImage
  | StepSavedToFile
  | StepConversionDone
  | StepErrorOccurred

text \<open>
  Everything \<open>convert\<close> does to the outside, in order: the events it hands to the
  progress observer and its calls of the collaborators, each with its arguments.
\<close>

datatype action =
    Progress string status nat step
  | HtmlConvert "string option"
  | ImportPuppeteer
  | Launch
  | NewPage
  | SetViewport rat rat rat
  | SetContent string
  | Sleep rat
  | Evaluate
  | Screenshot screenshot_options
  | Close
  | Mkdir string
  | WriteFile string "8 word list"

text \<open>
  The outside of one \<open>convert\<close> call: the identifier and the two clock readings it
  gets, and what each collaborator does when called (\<open>None\<close> or \<open>Inr\<close>: it returns;
  \<open>Some\<close> or \<open>Inl\<close>: it throws). Every collaborator is called at most once in a call,
  so one outcome each describes any run. The progress observer returns normally.
\<close>

record 'src env =
  uuidv4 :: string
  now_start :: int
  now_end :: int
  htmlPlugin_convert :: "'src \<Rightarrow> string option \<Rightarrow> thrown + html_result"
  import_puppeteer :: bool
  puppeteer_launch :: "thrown option"
  browser_newPage :: "thrown option"
  page_setViewport :: "thrown option"
  page_setContent :: "thrown option"
  page_evaluate :: "thrown + extents"
  page_screenshot :: "thrown + 8 word list"
  browser_close :: "thrown option"
  process_versions_node :: bool
  path_dirname :: "string \<Rightarrow> string"
  fs_mkdir :: "thrown option"
  fs_writeFile :: "thrown option"

type_synonym 'a comp = "action list \<times> (thrown + 'a)"

definition pure :: "'a \<Rightarrow> 'a comp" where
  "pure x = ([], Inr x)"

definition throw :: "thrown \<Rightarrow> 'a comp" where
  "throw e = ([], Inl e)"

definition tell :: "action list \<Rightarrow> unit comp" where
  "tell as = (as, Inr ())"

definition void :: "thrown option \<Rightarrow> thrown + unit" where
  "void outcome = (case outcome of None \<Rightarrow> Inr () | Some e \<Rightarrow> Inl e)"

definition do_call :: "action \<Rightarrow> thrown + 'a \<Rightarrow> 'a comp" where
  "do_call a outcome = ([a], outcome)"

definition bind :: "'a comp \<Rightarrow> ('a \<Rightarrow> 'b comp) \<Rightarrow> 'b comp" where
  "bind m f =
     (case m of
        (t, Inl e) \<Rightarrow> (t, Inl e)
      | (t, Inr x) \<Rightarrow> (case f x of (t', r) \<Rightarrow> (t @ t', r)))"

text \<open>\<open>try { m } finally { f }\<close>: \<open>f\<close> runs on every exit of \<open>m\<close>; what \<open>f\<close> throws wins.\<close>

definition finally_do :: "'a comp \<Rightarrow> unit comp \<Rightarrow> 'a comp" where
  "finally_do m f =
     (case m of (t, r) \<Rightarrow>
        (case f of (t', Inl e) \<Rightarrow> (t @ t', Inl e) | (t', Inr u) \<Rightarrow> (t @ t', r)))"

record conversion_result =
  success :: bool
  taskId :: string
  res_outputPath :: "string option"
  data :: "8 word list option"
  res_format :: "string option"
  res_width :: "number option"
  res_height :: "number option"
  error :: "conversion_error option"
  duration :: "int option"

record render_output =
  imageData :: "8 word list"
  outputWidth :: number
  outputHeight :: number

section \<open>Render step (plugin.ts: \_renderHTMLToImage, \_writeToFile)\<close>

definition measured_width :: "extents \<Rightarrow> int" where
  "measured_width e =
     Max {sint (body_scrollWidth e), sint (body_offsetWidth e), sint (html_clientWidth e),
          sint (html_scrollWidth e), sint (html_offsetWidth e)}"

definition measured_height :: "extents \<Rightarrow> int" where
  "measured_height e =
     Max {sint (body_scrollHeight e), sint (body_offsetHeight e), sint (html_clientHeight e),
          sint (html_scrollHeight e), sint (html_offsetHeight e)}"

definition is_jpeg :: "options \<Rightarrow> bool" where
  "is_jpeg options = (rd (format options) = Some ''jpg'' \<or> rd (format options) = Some ''jpeg'')"

definition screenshotOptions :: "options \<Rightarrow> screenshot_options" where
  "screenshotOptions options =
     \<lparr> shot_type = (if is_jpeg options then ''jpeg'' else ''png''),
       fullPage = True,
       shot_quality =
         (if is_jpeg options
          then Some (case rd (quality options) of Some q \<Rightarrow> q | None \<Rightarrow> 90) else None),
       omitBackground =
         (if rd (format options) = Some ''png''
          then Some (case rd (transparent options) of Some b \<Rightarrow> b | None \<Rightarrow> False)
          else None) \<rparr>"

definition deviceScaleFactor :: "options \<Rightarrow> rat" where
  "deviceScaleFactor options = (case rd (scale options) of Some s \<Rightarrow> s | None \<Rightarrow> 1)"

definition page_session :: "'src env \<Rightarrow> string \<Rightarrow> fileset \<Rightarrow> options \<Rightarrow> render_output comp" where
  "page_session env indexHtml files options =
     bind (do_call NewPage (void (browser_newPage env))) (\<lambda>_.
     bind (do_call (SetViewport (case rd (width options) of Some w \<Rightarrow> w | None \<Rightarrow> 800)
                      (case rd (height options) of Some h \<Rightarrow> h | None \<Rightarrow> 600)
                      (deviceScaleFactor options))
             (void (page_setViewport env))) (\<lambda>_.
     bind (do_call (SetContent (inlineResources indexHtml files))
             (void (page_setContent env))) (\<lambda>_.
     bind (let t = (case rd (waitTime options) of Some t \<Rightarrow> t | None \<Rightarrow> 1000)
           in if t > 0 then tell [Sleep t] else pure ()) (\<lambda>_.
     bind (do_call Evaluate (page_evaluate env)) (\<lambda>dimensions.
     bind (do_call (Screenshot (screenshotOptions options)) (page_screenshot env)) (\<lambda>screenshot.
     pure \<lparr> imageData = screenshot,
            outputWidth =
              Math_round (double_mul (of_int (measured_width dimensions))
                            (deviceScaleFactor options)),
            outputHeight =
              Math_round (double_mul (of_int (measured_height dimensions))
                            (deviceScaleFactor options)) \<rparr>))))))"

text \<open>
  The engine's module is imported first, then \<open>index.html\<close> is looked up (an entry that
  is missing, is not text or is the empty text is refused), then the browser is
  launched; the page session runs in \<open>try\<close> and the browser is closed in \<open>finally\<close>.
\<close>

definition renderHTMLToImage :: "'src env \<Rightarrow> fileset \<Rightarrow> options \<Rightarrow> render_output comp" where
  "renderHTMLToImage env files options =
     bind (do_call ImportPuppeteer
             (if import_puppeteer env then Inr () else Inl (ErrorObj PuppeteerRequired))) (\<lambda>_.
     case map_of files ''index.html'' of
       Some (Text indexHtml) \<Rightarrow>
         if indexHtml = [] then throw (ErrorObj IndexHtmlNotFound)
         else bind (do_call Launch (void (puppeteer_launch env))) (\<lambda>_.
                finally_do (page_session env indexHtml files options)
                  (do_call Close (void (browser_close env))))
     | _ \<Rightarrow> throw (ErrorObj IndexHtmlNotFound))"

definition writeToFile :: "'src env \<Rightarrow> 8 word list \<Rightarrow> string \<Rightarrow> unit comp" where
  "writeToFile env bytes path =
     (if process_versions_node env
      then bind (do_call (Mkdir (path_dirname env path)) (void (fs_mkdir env))) (\<lambda>_.
             do_call (WriteFile path bytes) (void (fs_writeFile env)))
      else throw (ErrorObj NodeRequired))"

section \<open>Orchestrator (plugin.ts: convert, \_createErrorResult)\<close>

definition createErrorResult ::
  "string \<Rightarrow> string \<Rightarrow> emsg \<Rightarrow> int \<Rightarrow> thrown option \<Rightarrow> conversion_result" where
  "createErrorResult tid c msg elapsed cs =
     \<lparr> success = False, taskId = tid, res_outputPath = None, data = None, res_format = None,
       res_width = None, res_height = None,
       error = Some \<lparr> code = c, message = msg, cause = cs \<rparr>,
       duration = Some elapsed \<rparr>"

text \<open>\<open>reportProgress\<close>: the observer gets the event if the merged options hold one.\<close>

definition reportProgress ::
  "'src env \<Rightarrow> options \<Rightarrow> status \<Rightarrow> nat \<Rightarrow> step \<Rightarrow> unit comp" where
  "reportProgress env mergedOptions st percent stp =
     (if rd (onProgress mergedOptions) \<noteq> None
      then tell [Progress (uuidv4 env) st percent stp] else pure ())"

text \<open>A string option is truthy when it holds a string that is not empty.\<close>

definition truthy :: "string option \<Rightarrow> bool" where
  "truthy s = (case s of None \<Rightarrow> False | Some p \<Rightarrow> p \<noteq> [])"

definition convert_body :: "'src env \<Rightarrow> 'src \<Rightarrow> options \<Rightarrow> conversion_result comp" where
  "convert_body env source mergedOptions =
     bind (reportProgress env mergedOptions ConvertingHtml 0 StepGeneratingHtml) (\<lambda>_.
     bind (do_call (HtmlConvert (rd (themeId mergedOptions)))
             (htmlPlugin_convert env source (rd (themeId mergedOptions)))) (\<lambda>htmlResult.
     case (if h_success htmlResult then h_data htmlResult else None) of
       None \<Rightarrow>
         bind (reportProgress env mergedOptions Failed 0 StepHtmlFailed) (\<lambda>_.
         pure \<lparr> success = False, taskId = uuidv4 env, res_outputPath = None, data = None,
                res_format = None, res_width = None, res_height = None,
                error = Some (case h_error htmlResult of
                                Some e \<Rightarrow> e
                              | None \<Rightarrow> \<lparr> code = ''CONV-HTML-002'',
                                          message = HtmlConversionNoData, cause = None \<rparr>),
                duration = Some (now_end env - now_start env) \<rparr>)
     | Some files \<Rightarrow>
         bind (reportProgress env mergedOptions Rendering 30 StepStartingBrowser) (\<lambda>_.
         bind (reportProgress env mergedOptions Rendering 40 StepRenderingPage) (\<lambda>_.
         bind (renderHTMLToImage env files mergedOptions) (\<lambda>out.
         bind (reportProgress env mergedOptions Capturing 80 StepGeneratingImage) (\<lambda>_.
         bind (if truthy (rd (outputPath mergedOptions))
               then bind (writeToFile env (imageData out)
                            (case rd (outputPath mergedOptions) of Some p \<Rightarrow> p | None \<Rightarrow> []))
                      (\<lambda>_. reportProgress env mergedOptions Completed 100 StepSavedToFile)
               else reportProgress env mergedOptions Completed 100 StepConversionDone) (\<lambda>_.
         pure \<lparr> success = True, taskId = uuidv4 env,
                res_outputPath = rd (outputPath mergedOptions),
                data = (if truthy (rd (outputPath mergedOptions)) then None
                        else Some (imageData out)),
                res_format = rd (format mergedOptions),
                res_width = Some (outputWidth out), res_height = Some (outputHeight out),
                error = None,
                duration = Some (now_end env - now_start env) \<rparr>)))))))"

definition convert :: "'src env \<Rightarrow> 'src \<Rightarrow> options option \<Rightarrow> action list \<times> conversion_result" where
  "convert env source options =
     (let mergedOptions = mergeOptions options;
          validation = validateOptions mergedOptions
      in if \<not> valid validation
         then ([], createErrorResult (uuidv4 env) INVALID_FORMAT
                     (case errors validation of
                        Some es \<Rightarrow> ValidationErrors es
                      | None \<Rightarrow> OptionValidationFailed)
                     (now_end env - now_start env) None)
         else (case convert_body env source mergedOptions of
                 (t, Inr result) \<Rightarrow> (t, result)
               | (t, Inl e) \<Rightarrow>
                   (t @ fst (reportProgress env mergedOptions Failed 0 StepErrorOccurred),
                    createErrorResult (uuidv4 env) SCREENSHOT_FAILED
                      (case e of ErrorObj m \<Rightarrow> m | NonError \<Rightarrow> UnknownRenderError)
                      (now_end env - now_start env)
                      (case e of ErrorObj m \<Rightarrow> Some e | NonError \<Rightarrow> None))))"

text \<open>The actions of one \<open>reportProgress\<close> call: the event, if there is an observer.\<close>

definition observed :: "'src env \<Rightarrow> options \<Rightarrow> status \<Rightarrow> nat \<Rightarrow> step \<Rightarrow> action list" where
  "observed env mergedOptions st percent stp =
     fst (reportProgress env mergedOptions st percent stp)"

text \<open>The events a run hands to the observer: status and percent, in order.\<close>

fun events :: "action list \<Rightarrow> (status \<times> nat) list" where
  "events [] = []"
| "events (Progress tid st p stp # as) = (st, p) # events as"
| "events (a # as) = events as"

section \<open>Example runs\<close>

text \<open>
  A card whose HTML stage produces the given file set, in an environment where every
  collaborator succeeds; the page measures 800 by 601 and the screenshot is four bytes.
\<close>

definition example_extents :: extents where
  "example_extents =
     \<lparr> body_scrollWidth = 100, body_offsetWidth = 100, html_clientWidth = 800,
       html_scrollWidth = 800, html_offsetWidth = 800, body_scrollHeight = 50,
       body_offsetHeight = 50, html_clientHeight = 600, html_scrollHeight = 601,
       html_offsetHeight = 50 \<rparr>"

definition example_files :: fileset where
  "example_files = [(''index.html'', Text ''<p>card</p>'')]"

definition example_env :: "fileset \<Rightarrow> unit env" where
  "example_env files =
     \<lparr> uuidv4 = ''task-1'', now_start = 1000, now_end = 1500,
       htmlPlugin_convert =
         (\<lambda>source theme. Inr \<lparr> h_success = True, h_data = Some files, h_error = None \<rparr>),
       import_puppeteer = True, puppeteer_launch = None, browser_newPage = None,
       page_setViewport = None, page_setContent = None,
       page_evaluate = Inr example_extents,
       page_screenshot = Inr [137, 80, 78, 71],
       browser_close = None, process_versions_node = True,
       path_dirname = (\<lambda>p. ''/tmp''), fs_mkdir = None, fs_writeFile = None \<rparr>"


definition double_0_3 :: rat where
  "double_0_3 = 5404319552844595 / 18014398509481984"

definition with_observer :: options where
  "with_observer = no_options \<lparr> onProgress := Val () \<rparr>"

definition bytes_index_files :: fileset where
  "bytes_index_files = [(''index.html'', Bytes [60, 112, 62]), (''theme.css'', Text ''p{}'')]"

definition save_jpg_options :: options where
  "save_jpg_options =
     no_options \<lparr> outputPath := Val ''/tmp/out.jpg'', format := Val ''jpg'', quality := Val 85 \<rparr>"

text \<open>
  A link tag for \<open>theme.css\<close>, and a card page with that tag and an image, with its file
  set and its inlined form.
\<close>

definition theme_link_tag :: string where
  "theme_link_tag =
     ''<link rel='' @ [dquote] @ ''stylesheet'' @ [dquote] @ '' href='' @ [dquote]
       @ ''theme.css'' @ [dquote] @ ''>''"


definition card_html :: string where
  "card_html = theme_link_tag @ ''<img src='' @ [squote] @ ''img/p.png'' @ [squote] @ ''>''"

definition card_files :: fileset where
  "card_files =
     [(''index.html'', Text card_html), (''theme.css'', Text ''p{}''),
      (''img/p.png'', Bytes [1, 2, 3, 255])]"

definition inlined_card :: string where
  "inlined_card =
     styleTag ''p{}'' @ ''<img src='' @ [dquote] @ ''data:image/png;base64,AQID/w=='' @ [dquote]
       @ ''>''"

section \<open>Properties of validation\<close>

lemmas check_defs =
  format_errors_def quality_errors_def quality_warnings_def scale_errors_def
  width_errors_def height_errors_def waitTime_errors_def transparent_warnings_def
  collected_errors_def collected_warnings_def

text \<open>
  C6. \<open>validateOptions({quality: 150})\<close> is invalid and its one error carries the value
  150; \<open>validateOptions({format: 'png', quality: 50})\<close> is valid and warns that PNG
  ignores the quality. For any options, a quality below 1 or above 100 puts the
  out-of-range error (with that value) into \<open>errors\<close> and makes the result invalid;
  a quality given together with format \<open>png\<close> puts the notice into \<open>warnings\<close>, never
  into \<open>errors\<close>, and adds nothing to \<open>errors\<close>: with the quality in range the errors are
  those of the same options without the quality.
\<close>

theorem validateOptions_quality:
  "validateOptions (no_options \<lparr> quality := Val 150 \<rparr>)
     = \<lparr> valid = False, errors = Some [QualityOutOfRange 150], warnings = None \<rparr>
   \<and> validateOptions (no_options \<lparr> format := Val ''png'', quality := Val 50 \<rparr>)
     = \<lparr> valid = True, errors = None, warnings = Some [PngIgnoresQuality] \<rparr>
   \<and> (\<forall>opts q. rd (quality opts) = Some q \<and> (q < 1 \<or> q > 100) \<longrightarrow>
        \<not> valid (validateOptions opts)
        \<and> (\<exists>es. errors (validateOptions opts) = Some es \<and> QualityOutOfRange q \<in> set es))
   \<and> (\<forall>opts q. rd (quality opts) = Some q \<and> rd (format opts) = Some ''png'' \<longrightarrow>
        (\<exists>ws. warnings (validateOptions opts) = Some ws \<and> PngIgnoresQuality \<in> set ws)
        \<and> PngIgnoresQuality \<notin> set (collected_errors opts)
        \<and> (1 \<le> q \<and> q \<le> 100 \<longrightarrow>
             collected_errors opts = collected_errors (opts \<lparr> quality := Absent \<rparr>)))"
proof (intro conjI allI impI)
  show "validateOptions (no_options \<lparr> quality := Val 150 \<rparr>)
     = \<lparr> valid = False, errors = Some [QualityOutOfRange 150], warnings = None \<rparr>"
    by (simp add: validateOptions_def check_defs no_options_def)
  show "validateOptions (no_options \<lparr> format := Val ''png'', quality := Val 50 \<rparr>)
     = \<lparr> valid = True, errors = None, warnings = Some [PngIgnoresQuality] \<rparr>"
    by (simp add: validateOptions_def check_defs no_options_def)
next
  fix opts :: options and q :: rat
  assume "rd (quality opts) = Some q \<and> (q < 1 \<or> q > 100)"
  then have "QualityOutOfRange q \<in> set (collected_errors opts)"
    by (auto simp: collected_errors_def quality_errors_def)
  then show "\<not> valid (validateOptions opts)"
    and "\<exists>es. errors (validateOptions opts) = Some es \<and> QualityOutOfRange q \<in> set es"
    by (auto simp: validateOptions_def)
next
  fix opts :: options and q :: rat
  assume h: "rd (quality opts) = Some q \<and> rd (format opts) = Some ''png''"
  then have "PngIgnoresQuality \<in> set (collected_warnings opts)"
    by (simp add: collected_warnings_def quality_warnings_def)
  then show "\<exists>ws. warnings (validateOptions opts) = Some ws \<and> PngIgnoresQuality \<in> set ws"
    by (auto simp: validateOptions_def)
  show "PngIgnoresQuality \<notin> set (collected_errors opts)"
    by (auto simp: check_defs split: option.splits if_splits)
  assume "1 \<le> q \<and> q \<le> 100"
  with h show "collected_errors opts = collected_errors (opts \<lparr> quality := Absent \<rparr>)"
    by (auto simp: check_defs split: option.splits)
qed

theorem validateOptions_quality_witness:
  "\<not> valid (validateOptions (no_options \<lparr> format := Val ''jpg'', quality := Val 0 \<rparr>))
   \<and> warnings (validateOptions (no_options \<lparr> format := Val ''png'', quality := Val 7 \<rparr>))
       = Some [PngIgnoresQuality]
   \<and> collected_errors (no_options \<lparr> format := Val ''png'', quality := Val 7 \<rparr>) = []"
proof -
  let ?a = "no_options \<lparr> format := Val ''jpg'', quality := Val 0 \<rparr>"
  let ?b = "no_options \<lparr> format := Val ''png'', quality := Val 7 \<rparr>"
  have a: "rd (quality ?a) = Some 0 \<and> ((0::rat) < 1 \<or> (0::rat) > 100)" by simp
  have b: "rd (quality ?b) = Some 7 \<and> rd (format ?b) = Some ''png''" by simp
  from validateOptions_quality a have "\<not> valid (validateOptions ?a)" by blast
  moreover from validateOptions_quality b
  have "\<exists>ws. warnings (validateOptions ?b) = Some ws \<and> PngIgnoresQuality \<in> set ws"
    and "collected_errors ?b = collected_errors (?b \<lparr> quality := Absent \<rparr>)"
    by (blast, simp)
  ultimately show ?thesis
    by (simp add: validateOptions_def check_defs no_options_def)
qed

text \<open>
  C10. \<open>validateOptions({})\<close> is valid with both \<open>errors\<close> and \<open>warnings\<close> undefined. For
  any options, \<open>errors\<close> is undefined exactly when no error was collected and is never
  the empty list, the same holds of \<open>warnings\<close>, and \<open>valid\<close> is true exactly when
  \<open>errors\<close> is undefined.
\<close>

theorem validateOptions_absent_fields:
  "validateOptions no_options = \<lparr> valid = True, errors = None, warnings = None \<rparr>
   \<and> (errors (validateOptions opts) = None) = (collected_errors opts = [])
   \<and> errors (validateOptions opts) \<noteq> Some []
   \<and> (warnings (validateOptions opts) = None) = (collected_warnings opts = [])
   \<and> warnings (validateOptions opts) \<noteq> Some []
   \<and> valid (validateOptions opts) = (errors (validateOptions opts) = None)"
  by (simp add: validateOptions_def check_defs no_options_def)

section \<open>Properties of the orchestrator and the render step\<close>

lemma events_append: "events (xs @ ys) = events xs @ events ys"
  by (induction xs rule: events.induct) simp_all

lemmas comp_defs = pure_def throw_def tell_def void_def do_call_def bind_def finally_do_def

lemma render_events: "events (fst (renderHTMLToImage env files options)) = []"
  by (auto simp: renderHTMLToImage_def page_session_def comp_defs Let_def events_append
      split: option.splits content.splits sum.splits prod.splits if_splits)

lemma writeToFile_events: "events (fst (writeToFile env bytes path)) = []"
  by (auto simp: writeToFile_def comp_defs events_append
      split: option.splits sum.splits prod.splits if_splits)

lemma render_events_eq: "renderHTMLToImage env files options = (t, r) \<Longrightarrow> events t = []"
  using render_events [of env files options] by simp

lemma writeToFile_events_eq: "writeToFile env bytes path = (t, r) \<Longrightarrow> events t = []"
  using writeToFile_events [of env bytes path] by simp

lemma convert_events_cases:
  "events (fst (convert env source options)) \<in> set
     [[],
      [(ConvertingHtml, 0), (Failed, 0)],
      [(ConvertingHtml, 0), (Rendering, 30), (Rendering, 40), (Failed, 0)],
      [(ConvertingHtml, 0), (Rendering, 30), (Rendering, 40), (Capturing, 80), (Failed, 0)],
      [(ConvertingHtml, 0), (Rendering, 30), (Rendering, 40), (Capturing, 80),
       (Completed, 100)]]"
  by (auto simp: convert_def convert_body_def reportProgress_def comp_defs Let_def events_append
      split: option.splits sum.splits prod.splits if_splits
      dest!: render_events_eq writeToFile_events_eq)

text \<open>
  C4, as amended. In any one \<open>convert\<close> call the percent values of the events other than
  \<open>failed\<close> never decrease, and a \<open>failed\<close> event is the last event of the call and
  carries percent 0, so the percent of the whole sequence can drop at its end.
\<close>

theorem convert_progress_order:
  "sorted (map snd (filter (\<lambda>e. fst e \<noteq> Failed) (events (fst (convert env source options)))))
   \<and> (\<forall>i < length (events (fst (convert env source options))).
         fst (events (fst (convert env source options)) ! i) = Failed \<longrightarrow>
           Suc i = length (events (fst (convert env source options)))
           \<and> snd (events (fst (convert env source options)) ! i) = 0)"
proof -
  let ?evs = "events (fst (convert env source options))"
  have "?evs = [] \<or> ?evs = [(ConvertingHtml, 0), (Failed, 0)]
      \<or> ?evs = [(ConvertingHtml, 0), (Rendering, 30), (Rendering, 40), (Failed, 0)]
      \<or> ?evs = [(ConvertingHtml, 0), (Rendering, 30), (Rendering, 40), (Capturing, 80), (Failed, 0)]
      \<or> ?evs = [(ConvertingHtml, 0), (Rendering, 30), (Rendering, 40), (Capturing, 80),
       (Completed, 100)]"
    using convert_events_cases [of env source options] by simp
  then show ?thesis
    by (elim disjE) (simp_all add: less_Suc_eq nth_Cons')
qed

theorem convert_progress_order_witness:
  "events (fst (convert (example_env []) () (Some with_observer)))
     = [(ConvertingHtml, 0), (Rendering, 30), (Rendering, 40), (Failed, 0)]
   \<and> sorted (map snd (filter (\<lambda>e. fst e \<noteq> Failed)
        (events (fst (convert (example_env []) () (Some with_observer))))))
   \<and> Suc 3 = length (events (fst (convert (example_env []) () (Some with_observer))))"
proof -
  let ?evs = "events (fst (convert (example_env []) () (Some with_observer)))"
  have e: "?evs = [(ConvertingHtml, 0), (Rendering, 30), (Rendering, 40), (Failed, 0)]"
    by code_simp
  have o: "sorted (map snd (filter (\<lambda>e. fst e \<noteq> Failed) ?evs))"
    and l: "\<forall>i < length ?evs. fst (?evs ! i) = Failed \<longrightarrow> Suc i = length ?evs \<and> snd (?evs ! i) = 0"
    using convert_progress_order [of "example_env []" "()" "Some with_observer"] by blast+
  have "3 < length ?evs" "fst (?evs ! 3) = Failed"
    by (simp_all add: e)
  with l have "Suc 3 = length ?evs" by blast
  with e o show ?thesis by (intro conjI)
qed

text \<open>
  C4 as stated fails: with an observer, an HTML stage that succeeds and a file set without
  \<open>index.html\<close>, the observer gets the percents 0, 30, 40 and then 0 with the \<open>failed\<close>
  event, which is not a non-decreasing sequence.
\<close>

theorem convert_percent_not_monotone:
  "\<not> sorted (map snd (events (fst (convert (example_env []) () (Some with_observer)))))"
  by code_simp

text \<open>
  C1. If the options merged with the defaults fail validation, \<open>convert\<close> returns at once
  the failure result with the code \<open>INVALID_FORMAT\<close>, which is \<open>'CONV-IMG-006'\<close>, and the
  joined validation errors as its message. It has done nothing to the outside by then: no
  call of the HTML plugin, no import of the render engine, no browser, no screenshot.
\<close>

theorem convert_invalid_options:
  assumes "\<not> valid (validateOptions (mergeOptions options))"
  shows "convert env source options =
     ([], \<lparr> success = False, taskId = uuidv4 env, res_outputPath = None, data = None,
            res_format = None, res_width = None, res_height = None,
            error = Some \<lparr> code = ''CONV-IMG-006'',
                           message = ValidationErrors (collected_errors (mergeOptions options)),
                           cause = None \<rparr>,
            duration = Some (now_end env - now_start env) \<rparr>)
     \<and> INVALID_FORMAT = ''CONV-IMG-006''"
  using assms
  by (simp add: convert_def Let_def createErrorResult_def INVALID_FORMAT_def validateOptions_def)

theorem convert_invalid_options_witness:
  "\<not> valid (validateOptions (mergeOptions (Some (no_options \<lparr> format := Val ''gif'' \<rparr>))))
   \<and> convert (example_env example_files) () (Some (no_options \<lparr> format := Val ''gif'' \<rparr>)) =
     ([], \<lparr> success = False, taskId = ''task-1'', res_outputPath = None, data = None,
            res_format = None, res_width = None, res_height = None,
            error = Some \<lparr> code = ''CONV-IMG-006'',
                           message = ValidationErrors [UnsupportedFormat ''gif''],
                           cause = None \<rparr>,
            duration = Some 500 \<rparr>)"
proof -
  let ?o = "Some (no_options \<lparr> format := Val ''gif'' \<rparr>)"
  have inv: "\<not> valid (validateOptions (mergeOptions ?o))"
    by code_simp
  have "collected_errors (mergeOptions ?o) = [UnsupportedFormat ''gif'']"
    by code_simp
  with inv convert_invalid_options [OF inv, of "example_env example_files" "()"]
  show ?thesis
    by (simp add: example_env_def)
qed

text \<open>
  C9. If the options merged with the defaults fail validation, \<open>convert\<close> hands no event
  to the progress observer, not even a \<open>failed\<close> one: an observer given together with
  invalid options sees nothing.
\<close>

theorem convert_invalid_no_events:
  assumes "\<not> valid (validateOptions (mergeOptions options))"
  shows "events (fst (convert env source options)) = []
     \<and> (\<forall>tid st p stp. Progress tid st p stp \<notin> set (fst (convert env source options)))"
  using assms by (simp add: convert_def Let_def)

theorem convert_invalid_no_events_witness:
  "rd (onProgress (mergeOptions (Some (with_observer \<lparr> quality := Val 150 \<rparr>)))) = Some ()
   \<and> \<not> valid (validateOptions (mergeOptions (Some (with_observer \<lparr> quality := Val 150 \<rparr>))))
   \<and> events (fst (convert (example_env example_files) ()
        (Some (with_observer \<lparr> quality := Val 150 \<rparr>)))) = []"
proof -
  let ?o = "Some (with_observer \<lparr> quality := Val 150 \<rparr>)"
  have obs: "rd (onProgress (mergeOptions ?o)) = Some ()"
    by code_simp
  have inv: "\<not> valid (validateOptions (mergeOptions ?o))"
    by code_simp
  from obs inv convert_invalid_no_events [OF inv, of "example_env example_files" "()"]
  show ?thesis by simp
qed

text \<open>
  The double arithmetic on inputs whose results under IEEE 754 are known: the doubles
  for 0.3, 0.1 and 1/3, and two products that become a tie by the rounding of the
  product.
\<close>

lemma to_double_examples:
  "to_double (3 / 10) = Num double_0_3
   \<and> to_double (1 / 10) = Num (3602879701896397 / 36028797018963968)
   \<and> to_double (1 / 3) = Num (6004799503160661 / 18014398509481984)
   \<and> double_mul 805 double_0_3 = Num (483 / 2)
   \<and> Math_round (double_mul 805 double_0_3) = Num 242
   \<and> Math_round (double_mul 5 double_0_3) = Num 2
   \<and> Math_round (Num (- 5 / 2)) = Num (- 2)"
  by (intro conjI; code_simp)








lemma round_half_even_near: "\<bar>of_int (round_half_even y) - y\<bar> \<le> 1 / 2"
proof -
  have "of_int \<lfloor>y\<rfloor> \<le> y" "y < of_int \<lfloor>y\<rfloor> + 1"
    by linarith+
  then show ?thesis
    by (auto simp: round_half_even_def Let_def)
qed

lemma pow2_pos: "0 < pow2 k"
  by (simp add: pow2_def)

text \<open>A finite result of the rounding is within half a unit in the last place.\<close>

lemma to_double_near:
  assumes "to_double x = Num r"
  shows "\<bar>r - x\<bar> \<le> pow2 (max (exponent x) (- 1022) - 52) / 2"
proof (cases "x = 0")
  case True
  with assms show ?thesis by (simp add: to_double_def pow2_pos less_imp_le)
next
  case False
  define u where "u = pow2 (max (exponent x) (- 1022) - 52)"
  have u: "0 < u" by (simp add: u_def pow2_pos)
  from assms False have r: "r = of_int (round_half_even (x / u)) * u"
    by (simp add: to_double_def Let_def u_def split: if_splits)
  have "\<bar>of_int (round_half_even (x / u)) - x / u\<bar> * u \<le> 1 / 2 * u"
    using round_half_even_near [of "x / u"] u by (intro mult_right_mono) simp_all
  moreover have "(of_int (round_half_even (x / u)) - x / u) * u = r - x"
    using u by (simp add: r left_diff_distrib)
  then have "\<bar>of_int (round_half_even (x / u)) - x / u\<bar> * u = \<bar>r - x\<bar>"
    using u by (metis abs_mult abs_of_pos)
  ultimately show ?thesis by (simp add: u_def)
qed








lemma render_output:
  assumes "renderHTMLToImage env files options = (t, Inr out)"
  shows "\<exists>indexHtml t'. page_session env indexHtml files options = (t', Inr out)"
  using assms
  by (auto simp: renderHTMLToImage_def comp_defs
      split: option.splits content.splits sum.splits prod.splits if_splits)



text \<open>
  C2, as amended. For a file set with no \<open>index.html\<close> entry holding text (also when the
  text is empty), the render step fails right after loading the render engine's module
  and before any call of the browser: with the index.html-missing error when the module
  loads, with the engine-required error when it does not. The orchestrator turns either
  into a failure result with the code \<open>SCREENSHOT_FAILED\<close> (\<open>'CONV-IMG-004'\<close>), that
  error's message and the error as cause, and reports a \<open>failed\<close> event.
\<close>

theorem render_missing_index:
  assumes "\<forall>s. map_of files ''index.html'' = Some (Text s) \<longrightarrow> s = []"
  shows "renderHTMLToImage env files options =
       ([ImportPuppeteer],
        Inl (ErrorObj (if import_puppeteer env then IndexHtmlNotFound else PuppeteerRequired)))
     \<and> (valid (validateOptions (mergeOptions opts))
        \<and> htmlPlugin_convert env source (rd (themeId (mergeOptions opts)))
            = Inr \<lparr> h_success = True, h_data = Some files, h_error = herr \<rparr> \<longrightarrow>
        convert env source opts =
          (observed env (mergeOptions opts) ConvertingHtml 0 StepGeneratingHtml
             @ [HtmlConvert (rd (themeId (mergeOptions opts)))]
             @ observed env (mergeOptions opts) Rendering 30 StepStartingBrowser
             @ observed env (mergeOptions opts) Rendering 40 StepRenderingPage
             @ [ImportPuppeteer]
             @ observed env (mergeOptions opts) Failed 0 StepErrorOccurred,
           \<lparr> success = False, taskId = uuidv4 env, res_outputPath = None, data = None,
             res_format = None, res_width = None, res_height = None,
             error = Some \<lparr> code = ''CONV-IMG-004'',
                message = (if import_puppeteer env then IndexHtmlNotFound else PuppeteerRequired),
                cause = Some (ErrorObj (if import_puppeteer env then IndexHtmlNotFound
                                        else PuppeteerRequired)) \<rparr>,
             duration = Some (now_end env - now_start env) \<rparr>)
        \<and> Launch \<notin> set (fst (convert env source opts)))"
proof (intro conjI impI)
  show r: "renderHTMLToImage env files options =
       ([ImportPuppeteer],
        Inl (ErrorObj (if import_puppeteer env then IndexHtmlNotFound else PuppeteerRequired)))"
    for options
    using assms
    by (auto simp: renderHTMLToImage_def comp_defs split: option.splits content.splits)
  assume h: "valid (validateOptions (mergeOptions opts))
        \<and> htmlPlugin_convert env source (rd (themeId (mergeOptions opts)))
            = Inr \<lparr> h_success = True, h_data = Some files, h_error = herr \<rparr>"
  have b: "convert_body env source (mergeOptions opts) =
     (observed env (mergeOptions opts) ConvertingHtml 0 StepGeneratingHtml
             @ [HtmlConvert (rd (themeId (mergeOptions opts)))]
             @ observed env (mergeOptions opts) Rendering 30 StepStartingBrowser
             @ observed env (mergeOptions opts) Rendering 40 StepRenderingPage
             @ [ImportPuppeteer],
      Inl (ErrorObj (if import_puppeteer env then IndexHtmlNotFound else PuppeteerRequired)))"
    using h
    by (simp add: convert_body_def r observed_def reportProgress_def comp_defs)
  show c: "convert env source opts =
          (observed env (mergeOptions opts) ConvertingHtml 0 StepGeneratingHtml
             @ [HtmlConvert (rd (themeId (mergeOptions opts)))]
             @ observed env (mergeOptions opts) Rendering 30 StepStartingBrowser
             @ observed env (mergeOptions opts) Rendering 40 StepRenderingPage
             @ [ImportPuppeteer]
             @ observed env (mergeOptions opts) Failed 0 StepErrorOccurred,
           \<lparr> success = False, taskId = uuidv4 env, res_outputPath = None, data = None,
             res_format = None, res_width = None, res_height = None,
             error = Some \<lparr> code = ''CONV-IMG-004'',
                message = (if import_puppeteer env then IndexHtmlNotFound else PuppeteerRequired),
                cause = Some (ErrorObj (if import_puppeteer env then IndexHtmlNotFound
                                        else PuppeteerRequired)) \<rparr>,
             duration = Some (now_end env - now_start env) \<rparr>)"
    using h
    by (simp add: convert_def b Let_def observed_def createErrorResult_def SCREENSHOT_FAILED_def)
  show "Launch \<notin> set (fst (convert env source opts))"
    by (simp add: c observed_def reportProgress_def comp_defs)
qed

theorem render_missing_index_witness:
  "map_of bytes_index_files ''index.html'' = Some (Bytes [60, 112, 62])
   \<and> renderHTMLToImage (example_env bytes_index_files) bytes_index_files DEFAULT_OPTIONS
       = ([ImportPuppeteer], Inl (ErrorObj IndexHtmlNotFound))
   \<and> convert (example_env bytes_index_files) () (Some with_observer) =
       ([Progress ''task-1'' ConvertingHtml 0 StepGeneratingHtml, HtmlConvert None,
         Progress ''task-1'' Rendering 30 StepStartingBrowser,
         Progress ''task-1'' Rendering 40 StepRenderingPage, ImportPuppeteer,
         Progress ''task-1'' Failed 0 StepErrorOccurred],
        \<lparr> success = False, taskId = ''task-1'', res_outputPath = None, data = None,
          res_format = None, res_width = None, res_height = None,
          error = Some \<lparr> code = ''CONV-IMG-004'', message = IndexHtmlNotFound,
                          cause = Some (ErrorObj IndexHtmlNotFound) \<rparr>,
          duration = Some 500 \<rparr>)"
proof -
  let ?env = "example_env bytes_index_files"
  have m: "map_of bytes_index_files ''index.html'' = Some (Bytes [60, 112, 62])"
    by (simp add: bytes_index_files_def)
  then have h: "\<forall>s. map_of bytes_index_files ''index.html'' = Some (Text s) \<longrightarrow> s = []"
    by simp
  have v: "valid (validateOptions (mergeOptions (Some with_observer)))"
    by code_simp
  have t: "rd (themeId (mergeOptions (Some with_observer))) = None"
    by code_simp
  have o: "rd (onProgress (mergeOptions (Some with_observer))) = Some ()"
    by code_simp
  have p: "htmlPlugin_convert ?env () (rd (themeId (mergeOptions (Some with_observer))))
      = Inr \<lparr> h_success = True, h_data = Some bytes_index_files, h_error = None \<rparr>"
    by (simp add: example_env_def)
  have i: "import_puppeteer ?env" "uuidv4 ?env = ''task-1''" "now_end ?env - now_start ?env = 500"
    by (simp_all add: example_env_def)
  from render_missing_index [OF h, of ?env DEFAULT_OPTIONS "Some with_observer" "()" None] v p
  have "renderHTMLToImage ?env bytes_index_files DEFAULT_OPTIONS
       = ([ImportPuppeteer], Inl (ErrorObj IndexHtmlNotFound))"
    and "convert ?env () (Some with_observer) =
       ([Progress ''task-1'' ConvertingHtml 0 StepGeneratingHtml, HtmlConvert None,
         Progress ''task-1'' Rendering 30 StepStartingBrowser,
         Progress ''task-1'' Rendering 40 StepRenderingPage, ImportPuppeteer,
         Progress ''task-1'' Failed 0 StepErrorOccurred],
        \<lparr> success = False, taskId = ''task-1'', res_outputPath = None, data = None,
          res_format = None, res_width = None, res_height = None,
          error = Some \<lparr> code = ''CONV-IMG-004'', message = IndexHtmlNotFound,
                          cause = Some (ErrorObj IndexHtmlNotFound) \<rparr>,
          duration = Some 500 \<rparr>)"
    by (simp_all add: i t o observed_def reportProgress_def tell_def)
  with m show ?thesis by (intro conjI)
qed

text \<open>
  C2 as stated fails where the render engine's module cannot be loaded: the file set has
  no \<open>index.html\<close>, yet the error raised, and the message of the failure result, is the
  engine-required one and not the index.html-missing one.
\<close>

theorem render_missing_index_engine_unavailable:
  "map_of ([] :: fileset) ''index.html'' = None
   \<and> renderHTMLToImage ((example_env []) \<lparr> import_puppeteer := False \<rparr>) [] DEFAULT_OPTIONS
       = ([ImportPuppeteer], Inl (ErrorObj PuppeteerRequired))
   \<and> snd (convert ((example_env []) \<lparr> import_puppeteer := False \<rparr>) () None) =
        \<lparr> success = False, taskId = ''task-1'', res_outputPath = None, data = None,
          res_format = None, res_width = None, res_height = None,
          error = Some \<lparr> code = ''CONV-IMG-004'', message = PuppeteerRequired,
                          cause = Some (ErrorObj PuppeteerRequired) \<rparr>,
          duration = Some 500 \<rparr>
   \<and> PuppeteerRequired \<noteq> IndexHtmlNotFound"
  by (intro conjI; code_simp)

lemma page_session_bytes:
  assumes "page_session env indexHtml files options = (t, Inr out)"
  shows "page_screenshot env = Inr (imageData out)"
  using assms
  by (auto simp: page_session_def comp_defs Let_def
      split: option.splits sum.splits prod.splits if_splits)

lemma render_bytes:
  assumes "renderHTMLToImage env files options = (t, Inr out)"
  shows "page_screenshot env = Inr (imageData out)"
  using render_output [OF assms] page_session_bytes by blast

lemma render_no_write: "WriteFile p a \<notin> set (fst (renderHTMLToImage env files options))"
  by (auto simp: renderHTMLToImage_def page_session_def comp_defs Let_def
      split: option.splits content.splits sum.splits prod.splits if_splits)

lemma render_success_facts:
  assumes "renderHTMLToImage env files options = (t, Inr out)"
  shows "page_screenshot env = Inr (imageData out) \<and> (\<forall>p a. WriteFile p a \<notin> set t)"
  using render_bytes [OF assms] render_no_write [of _ _ env files options] assms by simp

lemma convert_body_success:
  assumes "convert_body env source m = (t, Inr r)" and "success r"
  shows "\<exists>bytes. page_screenshot env = Inr bytes
     \<and> res_outputPath r = rd (outputPath m)
     \<and> data r = (if truthy (rd (outputPath m)) then None else Some bytes)
     \<and> (if truthy (rd (outputPath m))
         then WriteFile (case rd (outputPath m) of Some p \<Rightarrow> p | None \<Rightarrow> []) bytes \<in> set t
         else \<forall>p a. WriteFile p a \<notin> set t)"
  using assms
  by (auto simp: convert_body_def writeToFile_def reportProgress_def comp_defs
      split: option.splits sum.splits prod.splits if_splits dest!: render_success_facts)

lemma createErrorResult_fails: "\<not> success (createErrorResult tid c msg el cs)"
  by (simp add: createErrorResult_def)

text \<open>
  C3, as amended. After a successful \<open>convert\<close>, the result's \<open>outputPath\<close> is the
  merged options' \<open>outputPath\<close> as it is. If that is a string that is not empty, \<open>data\<close>
  is undefined and the image bytes were written to that path. Otherwise (undefined, or
  the empty string) \<open>data\<close> holds the image bytes and nothing was written.
\<close>

theorem convert_success_output:
  assumes "success (snd (convert env source options))"
  shows "\<exists>bytes. page_screenshot env = Inr bytes
     \<and> res_outputPath (snd (convert env source options)) = rd (outputPath (mergeOptions options))
     \<and> (truthy (rd (outputPath (mergeOptions options))) \<longrightarrow>
          data (snd (convert env source options)) = None
          \<and> WriteFile (case rd (outputPath (mergeOptions options)) of Some p \<Rightarrow> p | None \<Rightarrow> [])
               bytes \<in> set (fst (convert env source options)))
     \<and> (\<not> truthy (rd (outputPath (mergeOptions options))) \<longrightarrow>
          data (snd (convert env source options)) = Some bytes
          \<and> (\<forall>p a. WriteFile p a \<notin> set (fst (convert env source options))))"
proof -
  let ?m = "mergeOptions options"
  obtain t x where b: "convert_body env source ?m = (t, x)"
    by (cases "convert_body env source ?m")
  from assms have v: "valid (validateOptions ?m)"
    by (cases "valid (validateOptions ?m)")
       (simp_all add: convert_def Let_def createErrorResult_fails)
  from assms v b obtain r where r: "x = Inr r" "success r"
    by (cases x) (simp_all add: convert_def Let_def createErrorResult_fails)
  with v b have c: "convert env source options = (t, r)"
    by (simp add: convert_def Let_def)
  from convert_body_success [OF b [unfolded r(1)] r(2)] obtain bytes where bytes:
    "page_screenshot env = Inr bytes" "res_outputPath r = rd (outputPath ?m)"
    "data r = (if truthy (rd (outputPath ?m)) then None else Some bytes)"
    "if truthy (rd (outputPath ?m))
     then WriteFile (case rd (outputPath ?m) of Some p \<Rightarrow> p | None \<Rightarrow> []) bytes \<in> set t
     else \<forall>p a. WriteFile p a \<notin> set t"
    by blast
  show ?thesis
    using bytes by (intro exI [of _ bytes]) (simp add: c split: if_splits)
qed

theorem convert_success_output_witness:
  "success (snd (convert (example_env example_files) () (Some save_jpg_options)))
   \<and> res_outputPath (snd (convert (example_env example_files) () (Some save_jpg_options)))
       = Some ''/tmp/out.jpg''
   \<and> data (snd (convert (example_env example_files) () (Some save_jpg_options))) = None
   \<and> success (snd (convert (example_env example_files) () None))
   \<and> res_outputPath (snd (convert (example_env example_files) () None)) = None
   \<and> data (snd (convert (example_env example_files) () None)) = Some [137, 80, 78, 71]"
proof -
  let ?a = "convert (example_env example_files) () (Some save_jpg_options)"
  let ?b = "convert (example_env example_files) () None"
  have sa: "success (snd ?a)" and sb: "success (snd ?b)"
    by code_simp+
  have pa: "rd (outputPath (mergeOptions (Some save_jpg_options))) = Some ''/tmp/out.jpg''"
    and pb: "rd (outputPath (mergeOptions None)) = None"
    by code_simp+
  have sh: "page_screenshot (example_env example_files) = Inr [137, 80, 78, 71]"
    by (simp add: example_env_def)
  from convert_success_output [OF sa] pa
  have a: "res_outputPath (snd ?a) = Some ''/tmp/out.jpg''" "data (snd ?a) = None"
    by (auto simp: truthy_def)
  from convert_success_output [OF sb] pb sh
  have b: "res_outputPath (snd ?b) = None" "data (snd ?b) = Some [137, 80, 78, 71]"
    by (auto simp: truthy_def)
  from sa sb a b show ?thesis by (intro conjI)
qed

text \<open>
  C3 as stated fails for \<open>outputPath: ''\<close>: the merged options contain an
  \<open>outputPath\<close>, the call succeeds, and the result has both \<open>outputPath\<close> (the empty
  string, not undefined) and \<open>data\<close> (the image bytes); no file is written.
\<close>

theorem convert_empty_outputPath:
  "rd (outputPath (mergeOptions (Some (no_options \<lparr> outputPath := Val [] \<rparr>)))) = Some []
   \<and> convert (example_env example_files) () (Some (no_options \<lparr> outputPath := Val [] \<rparr>)) =
     ([HtmlConvert None, ImportPuppeteer, Launch, NewPage, SetViewport 800 600 1,
       SetContent ''<p>card</p>'', Sleep 1000, Evaluate,
       Screenshot \<lparr> shot_type = ''png'', fullPage = True, shot_quality = None,
                    omitBackground = Some False \<rparr>,
       Close],
      \<lparr> success = True, taskId = ''task-1'', res_outputPath = Some [],
        data = Some [137, 80, 78, 71], res_format = Some ''png'', res_width = Some (Num 800),
        res_height = Some (Num 601), error = None, duration = Some 500 \<rparr>)"
  by (intro conjI; code_simp)

section \<open>Properties of the resource inliner\<close>

text \<open>
  The model on inputs whose results under JavaScript are known: the flag \<open>i\<close> and the
  backtracking into the greedy stars, the replacement patterns, Base64 (the vectors of
  RFC 4648), the image test and the MIME type.
\<close>

lemma exec_link_example:
  "exec True THEME_LINK
     (''<LINK Rel=x HREF='' @ [squote] @ ''css/Theme.CSS'' @ [squote] @ '' media=all>tail'')
     = Some (''tail'', [])
   \<and> exec True THEME_LINK (''<link href='' @ [dquote] @ ''theme.css.map'' @ [dquote] @ ''>'') = None
   \<and> exec False (link_rx ''a.css'') (''<link href='' @ [dquote] @ ''A.css'' @ [dquote] @ ''>'') = None"
  by (intro conjI; code_simp)

lemma replace_patterns_example:
  "replace_g True (lit ''ab'') ''<$&$$$1$0$`>'' ''xxABxab'' = ''xx<AB$$1$0xx>x<ab$$1$0xxABx>''
   \<and> replace_g True (Seq (Grp 1 (Alt (lit ''src'') (lit ''href''))) (lit ''=''))
        ''$1:$2$01$10'' ''a SRC=1 href=2'' = ''a SRC:$2SRCSRC01 href:$2hrefhref02''"
  by (intro conjI; code_simp)

lemma base64_examples:
  "uint8ArrayToBase64 [102] = ''Zg=='' \<and> uint8ArrayToBase64 [102, 111] = ''Zm8=''
   \<and> uint8ArrayToBase64 [102, 111, 111] = ''Zm9v''
   \<and> uint8ArrayToBase64 [102, 111, 111, 98, 97, 114] = ''Zm9vYmFy''
   \<and> uint8ArrayToBase64 [1, 2, 3, 255] = ''AQID/w==''"
  by (intro conjI; code_simp)

lemma image_path_examples:
  "isImagePath ''img/Photo.JPeG'' \<and> \<not> isImagePath ''img/photo.jpegx''
   \<and> \<not> isImagePath ''png'' \<and> getMimeType ''img/Photo.JPeG'' = ''image/jpeg''
   \<and> getMimeType ''a/b.svg'' = ''image/svg+xml''
   \<and> split_pop (CHR ''/'') ''img/sub/p.png'' = ''p.png''
   \<and> escapeRegex ''a.b(c)'' = ''a'' @ [backslash] @ ''.b'' @ [backslash] @ ''(c'' @ [backslash] @ '')''"
  by (intro conjI; code_simp)

lemma replace_from_no_match:
  "no_match ic r s \<Longrightarrow> replace_from ic r tmpl pre s = s"
proof (induction s arbitrary: pre)
  case Nil
  then show ?case
    by (subst replace_from.simps) (simp add: no_match_def)
next
  case (Cons c cs)
  from Cons.prems have "exec ic r (c # cs) = None" "no_match ic r cs"
    by (simp_all add: no_match_def)
  with Cons.IH show ?case
    by (subst replace_from.simps) simp
qed

lemma replace_g_no_match: "no_match ic r s \<Longrightarrow> replace_g ic r tmpl s = s"
  by (simp add: replace_g_def replace_from_no_match)

lemma inline_theme_no_refs:
  "list_all (\<lambda>r. no_match True r s) (theme_patterns files) \<Longrightarrow> inline_theme files s = s"
  by (auto simp: inline_theme_def theme_patterns_def replace_g_no_match
      split: option.splits content.splits)

lemma inline_css_no_refs:
  "list_all (\<lambda>r. no_match True r s) (concat (map css_pattern files)) \<Longrightarrow>
   fold inline_css_entry files s = s"
proof (induction files)
  case Nil
  then show ?case by simp
next
  case (Cons e es)
  then have "inline_css_entry e s = s"
    by (cases e) (auto simp: inline_css_entry_def css_pattern_def replace_g_no_match
        split: content.splits)
  with Cons show ?case by simp
qed

lemma inline_image_no_refs:
  "list_all (\<lambda>r. no_match True r s) (concat (map image_pattern files)) \<Longrightarrow>
   fold inline_image_entry files s = s"
proof (induction files)
  case Nil
  then show ?case by simp
next
  case (Cons e es)
  then have "inline_image_entry e s = s"
    by (cases e) (auto simp: inline_image_entry_def image_pattern_def replace_g_no_match
        split: content.splits)
  with Cons show ?case by simp
qed

lemma inlineResources_no_refs:
  "no_external_refs files s \<Longrightarrow> inlineResources s files = s"
  by (simp add: no_external_refs_def external_patterns_def inlineResources_def
      inline_theme_no_refs inline_css_no_refs inline_image_no_refs)

text \<open>
  C8. If the inliner's output for \<open>html\<close> and \<open>files\<close> has no external reference left
  (no pattern of an inlinable entry of \<open>files\<close> matches in it), then inlining that output
  again with the same files returns it unchanged.
\<close>

theorem inlineResources_idempotent:
  assumes "no_external_refs files (inlineResources html files)"
  shows "inlineResources (inlineResources html files) files = inlineResources html files"
  using assms by (rule inlineResources_no_refs)



theorem inlineResources_idempotent_witness:
  "inlineResources card_html card_files = inlined_card
   \<and> no_external_refs card_files inlined_card
   \<and> inlineResources inlined_card card_files = inlined_card"
proof -
  have a: "inlineResources card_html card_files = inlined_card"
    by code_simp
  have b: "no_external_refs card_files inlined_card"
    by code_simp
  from b have "no_external_refs card_files (inlineResources card_html card_files)"
    by (simp only: a)
  from inlineResources_idempotent [OF this]
  have "inlineResources inlined_card card_files = inlined_card"
    by (simp only: a)
  with a b show ?thesis by (intro conjI)
qed

lemma replace_every_skip:
  "exec ic r (c # cs) = None \<Longrightarrow>
   replace_every ic r text (c # cs) = c # replace_every ic r text cs"
  by (subst replace_every.simps) simp

lemma replace_every_match:
  "exec ic r s = Some (rest, cp) \<Longrightarrow> length rest < length s \<Longrightarrow>
   replace_every ic r text s = text @ replace_every ic r text (drop (length s - length rest) s)"
  by (subst replace_every.simps) (simp add: Let_def)





text \<open>
  Two inputs that the amended C5 leaves out. The style block is the replacement text
  of \<open>String.prototype.replace\<close>, which reads \<open>$&\<close> in it as the matched text: a CSS text
  with \<open>$&\<close> comes out with the link tag in its place. And a \<open>theme.css\<close> holding the
  empty text is falsy: its link tag stays.
\<close>

lemma inline_theme_dollar_example:
  "inlineResources theme_link_tag [(''theme.css'', Text (''a:after{content:'' @ [dquote] @ ''$&'' @ [dquote] @ ''}''))]
     = styleTag (''a:after{content:'' @ [dquote] @ theme_link_tag @ [dquote] @ ''}'')"
  by code_simp

lemma inline_theme_empty_example:
  "inlineResources theme_link_tag [(''theme.css'', Text [])] = theme_link_tag"
  by code_simp

text \<open>
  \<open>_escapeRegex\<close> puts a backslash before each syntax character, and a pattern text read
  back from its result is the literal for the file name: this is why \<open>link_rx\<close> and
  \<open>src_href_rx\<close> hold \<open>lit filename\<close>.
\<close>

lemma escapeRegex_map:
  "replace_from False (Atom (OneOf regex_syntax_chars)) [backslash, dollar, CHR ''&''] pre s
     = concat (map (\<lambda>c. if c \<in> set regex_syntax_chars then [backslash, c] else [c]) s)"
proof (induction s arbitrary: pre)
  case Nil
  then show ?case
    by (subst replace_from.simps) (simp add: exec_def)
next
  case (Cons c cs)
  then show ?case
    by (subst replace_from.simps)
       (simp add: exec_def dollar_def backslash_def squote_def is_digit_def)
qed

lemma pattern_text_escaped:
  "pattern_text (concat (map (\<lambda>c. if c \<in> set regex_syntax_chars then [backslash, c] else [c]) s))
     = Some (lit s)"
proof (induction s)
  case Nil
  then show ?case by simp
next
  case (Cons c cs)
  define e where
    "e = concat (map (\<lambda>c. if c \<in> set regex_syntax_chars then [backslash, c] else [c]) cs)"
  from Cons have ih: "pattern_text e = Some (lit cs)"
    by (simp add: e_def)
  show ?case
  proof (cases "c \<in> set regex_syntax_chars")
    case True
    with ih show ?thesis by (simp add: e_def [symmetric])
  next
    case False
    then have nb: "c \<noteq> backslash"
      by (auto simp: regex_syntax_chars_def)
    have "pattern_text (c # e) = Some (lit (c # cs))"
    proof (cases e)
      case Nil
      with ih False show ?thesis by simp
    next
      case (Cons d t)
      with ih False nb show ?thesis by simp
    qed
    with False show ?thesis by (simp add: e_def [symmetric])
  qed
qed

lemma escapeRegex_literal: "pattern_text (escapeRegex s) = Some (lit s)"
  by (simp add: escapeRegex_def replace_g_def escapeRegex_map pattern_text_escaped)

end
